theory Spec2Isabelle
  imports Main "HOL-Library.Word" "HOL-Library.State_Monad"
begin

section \<open>EthernetHelper: data model\<close>

text \<open>
  The development embeds the header-only class \<open>EthernetHelper\<close> (EthernetHelper.h):
  its three static members, and the static member functions \<open>begin\<close>, \<open>maintain\<close>,
  \<open>isLinkUp\<close>, \<open>printConfig\<close>, \<open>printIPAddress\<close> and \<open>printLinkStatus\<close>.

  The Arduino core and the Ethernet library (\<open>Ethernet\<close>, \<open>Serial\<close>, \<open>millis\<close>,
  \<open>delay\<close>) are not part of the repository. They are the environment: every call the
  helper makes to the library and the clock is recorded, in program order, in the list
  \<open>calls\<close>, and everything written to \<open>Serial\<close> in the list \<open>serial\<close>. What a call
  returns is given by a \<open>driver\<close>, a parameter of every operation, which maps the
  history of calls so far (the current call included) to the value returned. All
  theorems hold for every driver.
\<close>

type_synonym byte = "8 word"

text \<open>\<open>unsigned long\<close> is 32 bits wide on the Arduino targets; \<open>-\<close> wraps around.\<close>

type_synonym ulong = "32 word"

text \<open>\<open>IPAddress(a, b, c, d)\<close>; \<open>ip[0]\<close> .. \<open>ip[3]\<close> are the selectors.\<close>

datatype IPAddress = IPAddress (octet0: byte) (octet1: byte) (octet2: byte) (octet3: byte)

text \<open>The two enumerations of Ethernet.h that the helper compares against.\<close>

datatype EthernetLinkStatus = Unknown | LinkON | LinkOFF

datatype EthernetHardwareStatus =
  EthernetNoHardware | EthernetW5100 | EthernetW5200 | EthernetW5500

text \<open>
  The calls into the Ethernet library and the clock. The arguments of
  \<open>Eth_begin_static\<close> are in the order of the library call
  \<open>Ethernet.begin(mac, ip, dns, gateway, subnet)\<close>.
\<close>

datatype call =
    Call_millis
  | Call_delay ulong
  | Eth_begin_dhcp "byte list" ulong
  | Eth_begin_static "byte list" IPAddress IPAddress IPAddress IPAddress
  | Eth_hardwareStatus
  | Eth_linkStatus
  | Eth_maintain
  | Eth_localIP
  | Eth_gatewayIP
  | Eth_subnetMask
  | Eth_dnsServerIP

text \<open>What is written to \<open>Serial\<close>: \<open>print\<close> and \<open>println\<close> of a text or of a byte.\<close>

datatype serial_output =
    Print_text string
  | Println_text string
  | Print_byte byte
  | Println_byte byte
  | Println_empty

text \<open>
  One answer function for each call that returns a value. \<open>begin_result\<close> is the
  \<open>int\<close> returned by \<open>Ethernet.begin(mac, timeout)\<close>, which the helper compares with
  0; \<open>maintain_result\<close> is the value of \<open>Ethernet.maintain()\<close> as stored in
  \<open>byte result\<close>.
\<close>

record driver =
  begin_result :: "call list \<Rightarrow> int"
  hardwareStatus_result :: "call list \<Rightarrow> EthernetHardwareStatus"
  linkStatus_result :: "call list \<Rightarrow> EthernetLinkStatus"
  maintain_result :: "call list \<Rightarrow> byte"
  millis_result :: "call list \<Rightarrow> ulong"
  localIP_result :: "call list \<Rightarrow> IPAddress"
  gatewayIP_result :: "call list \<Rightarrow> IPAddress"
  subnetMask_result :: "call list \<Rightarrow> IPAddress"
  dnsServerIP_result :: "call list \<Rightarrow> IPAddress"

text \<open>
  The three static members of the class, the calls made so far and the serial output
  so far.
\<close>

record world =
  usingDHCP :: bool
  lastLinkStatus :: EthernetLinkStatus
  lastLinkCheck :: ulong
  calls :: "call list"
  serial :: "serial_output list"

text \<open>
  The static member initializers at the end of the header:
  \<open>usingDHCP = false; lastLinkStatus = Unknown; lastLinkCheck = 0\<close>.
\<close>

definition initial_world :: world where
  "initial_world =
     \<lparr>usingDHCP = False, lastLinkStatus = Unknown, lastLinkCheck = 0,
       calls = [], serial = []\<rparr>"

section \<open>Calls into the environment\<close>

definition emit :: "call \<Rightarrow> (world, unit) state" where
  "emit c = State (\<lambda>w. ((), w\<lparr>calls := calls w @ [c]\<rparr>))"

definition ask :: "call \<Rightarrow> (call list \<Rightarrow> 'a) \<Rightarrow> (world, 'a) state" where
  "ask c answer = State (\<lambda>w. (answer (calls w @ [c]), w\<lparr>calls := calls w @ [c]\<rparr>))"

definition serial_write :: "serial_output \<Rightarrow> (world, unit) state" where
  "serial_write x = State (\<lambda>w. ((), w\<lparr>serial := serial w @ [x]\<rparr>))"

definition Serial_print :: "string \<Rightarrow> (world, unit) state" where
  "Serial_print t = serial_write (Print_text t)"

definition Serial_println :: "string \<Rightarrow> (world, unit) state" where
  "Serial_println t = serial_write (Println_text t)"

definition Serial_print_num :: "byte \<Rightarrow> (world, unit) state" where
  "Serial_print_num b = serial_write (Print_byte b)"

definition Serial_println_num :: "byte \<Rightarrow> (world, unit) state" where
  "Serial_println_num b = serial_write (Println_byte b)"

definition Serial_println_none :: "(world, unit) state" where
  "Serial_println_none = serial_write Println_empty"

definition millis :: "driver \<Rightarrow> (world, ulong) state" where
  "millis d = ask Call_millis (millis_result d)"

definition delay :: "ulong \<Rightarrow> (world, unit) state" where
  "delay ms = emit (Call_delay ms)"

definition Ethernet_begin_dhcp :: "driver \<Rightarrow> byte list \<Rightarrow> ulong \<Rightarrow> (world, int) state" where
  "Ethernet_begin_dhcp d mac timeout = ask (Eth_begin_dhcp mac timeout) (begin_result d)"

definition Ethernet_begin_static ::
  "byte list \<Rightarrow> IPAddress \<Rightarrow> IPAddress \<Rightarrow> IPAddress \<Rightarrow> IPAddress \<Rightarrow> (world, unit) state" where
  "Ethernet_begin_static mac ip dns gateway subnet =
     emit (Eth_begin_static mac ip dns gateway subnet)"

definition Ethernet_hardwareStatus :: "driver \<Rightarrow> (world, EthernetHardwareStatus) state" where
  "Ethernet_hardwareStatus d = ask Eth_hardwareStatus (hardwareStatus_result d)"

definition Ethernet_linkStatus :: "driver \<Rightarrow> (world, EthernetLinkStatus) state" where
  "Ethernet_linkStatus d = ask Eth_linkStatus (linkStatus_result d)"

definition Ethernet_maintain :: "driver \<Rightarrow> (world, byte) state" where
  "Ethernet_maintain d = ask Eth_maintain (maintain_result d)"

definition Ethernet_localIP :: "driver \<Rightarrow> (world, IPAddress) state" where
  "Ethernet_localIP d = ask Eth_localIP (localIP_result d)"

definition Ethernet_gatewayIP :: "driver \<Rightarrow> (world, IPAddress) state" where
  "Ethernet_gatewayIP d = ask Eth_gatewayIP (gatewayIP_result d)"

definition Ethernet_subnetMask :: "driver \<Rightarrow> (world, IPAddress) state" where
  "Ethernet_subnetMask d = ask Eth_subnetMask (subnetMask_result d)"

definition Ethernet_dnsServerIP :: "driver \<Rightarrow> (world, IPAddress) state" where
  "Ethernet_dnsServerIP d = ask Eth_dnsServerIP (dnsServerIP_result d)"

section \<open>The static members\<close>

definition set_usingDHCP :: "bool \<Rightarrow> (world, unit) state" where
  "set_usingDHCP b = State (\<lambda>w. ((), w\<lparr>usingDHCP := b\<rparr>))"

definition set_lastLinkStatus :: "EthernetLinkStatus \<Rightarrow> (world, unit) state" where
  "set_lastLinkStatus l = State (\<lambda>w. ((), w\<lparr>lastLinkStatus := l\<rparr>))"

definition set_lastLinkCheck :: "ulong \<Rightarrow> (world, unit) state" where
  "set_lastLinkCheck t = State (\<lambda>w. ((), w\<lparr>lastLinkCheck := t\<rparr>))"

definition get_usingDHCP :: "(world, bool) state" where
  "get_usingDHCP = State (\<lambda>w. (usingDHCP w, w))"

definition get_lastLinkStatus :: "(world, EthernetLinkStatus) state" where
  "get_lastLinkStatus = State (\<lambda>w. (lastLinkStatus w, w))"

definition get_lastLinkCheck :: "(world, ulong) state" where
  "get_lastLinkCheck = State (\<lambda>w. (lastLinkCheck w, w))"

section \<open>The member functions\<close>

definition printIPAddress :: "IPAddress \<Rightarrow> (world, unit) state" where
  "printIPAddress ip = do {
     Serial_print_num (octet0 ip);
     Serial_print ''.'';
     Serial_print_num (octet1 ip);
     Serial_print ''.'';
     Serial_print_num (octet2 ip);
     Serial_print ''.'';
     Serial_println_num (octet3 ip)
   }"

definition printLinkStatus :: "driver \<Rightarrow> (world, unit) state" where
  "printLinkStatus d = do {
     Serial_print ''  Link: '';
     linkStatus \<leftarrow> Ethernet_linkStatus d;
     if linkStatus = LinkON then Serial_println ''Connected''
     else if linkStatus = LinkOFF then Serial_println ''Disconnected''
     else Serial_println ''Unknown''
   }"

definition EthernetHelper_isLinkUp :: "driver \<Rightarrow> (world, bool) state" where
  "EthernetHelper_isLinkUp d = do {
     linkStatus \<leftarrow> Ethernet_linkStatus d;
     State_Monad.return (linkStatus = LinkON)
   }"

text \<open>
  \<open>begin\<close>. The early \<open>return false\<close> of the hardware check is the value
  \<open>Some False\<close> of the first block; \<open>None\<close> means that control falls through to
  the report of the final configuration. The parameters \<open>gateway\<close> and \<open>dns\<close>,
  which the source overwrites with their defaults, are rebound by \<open>let\<close>.
\<close>

definition EthernetHelper_begin ::
  "driver \<Rightarrow> byte list \<Rightarrow> IPAddress \<Rightarrow> IPAddress \<Rightarrow> IPAddress \<Rightarrow> IPAddress \<Rightarrow> ulong
     \<Rightarrow> (world, bool) state" where
  "EthernetHelper_begin d mac fallbackIP gateway subnet dns dhcpTimeout = do {
     Serial_println ''=== Ethernet Initialization ==='';
     Serial_println ''Attempting DHCP configuration...'';
     startTime \<leftarrow> millis d;
     r \<leftarrow> Ethernet_begin_dhcp d mac dhcpTimeout;
     early \<leftarrow>
       (if r = 0 then do {
          Serial_println ''DHCP failed!'';
          hw \<leftarrow> Ethernet_hardwareStatus d;
          if hw = EthernetNoHardware then do {
            Serial_println ''ERROR: Ethernet shield not found!'';
            Serial_println ''Cannot continue without hardware.'';
            State_Monad.return (Some False)
          } else do {
            link \<leftarrow> Ethernet_linkStatus d;
            (if link = LinkOFF
             then Serial_println ''WARNING: Ethernet cable not connected''
             else State_Monad.return ());
            Serial_println ''Falling back to static IP configuration...'';
            let gateway =
              (if gateway = IPAddress 0 0 0 0
               then IPAddress (octet0 fallbackIP) (octet1 fallbackIP) (octet2 fallbackIP) 1
               else gateway);
            let dns = (if dns = IPAddress 0 0 0 0 then gateway else dns);
            Ethernet_begin_static mac fallbackIP dns gateway subnet;
            delay 1000;
            Serial_print ''  Static IP: '';
            set_usingDHCP False;
            State_Monad.return None
          }
        } else do {
          Serial_print ''  DHCP IP: '';
          set_usingDHCP True;
          State_Monad.return None
        });
     case early of
       Some b \<Rightarrow> State_Monad.return b
     | None \<Rightarrow> do {
         ip \<leftarrow> Ethernet_localIP d;
         printIPAddress ip;
         Serial_print ''  Gateway: '';
         gw \<leftarrow> Ethernet_gatewayIP d;
         printIPAddress gw;
         Serial_print ''  Subnet: '';
         sn \<leftarrow> Ethernet_subnetMask d;
         printIPAddress sn;
         Serial_print ''  DNS: '';
         ds \<leftarrow> Ethernet_dnsServerIP d;
         printIPAddress ds;
         printLinkStatus d;
         Serial_println ''=== Ethernet Ready ==='';
         Serial_println_none;
         now \<leftarrow> millis d;
         set_lastLinkCheck now;
         State_Monad.return True
       }
   }"

text \<open>
  \<open>maintain\<close> is two blocks in sequence. The first, under the comment
  ``Maintain DHCP lease (only does work if using DHCP)'': the \<open>switch\<close> on the
  \<open>byte result\<close> has the cases 1 to 4 and no default.
\<close>

definition maintain_dhcp_lease :: "driver \<Rightarrow> (world, unit) state" where
  "maintain_dhcp_lease d = do {
     dhcp \<leftarrow> get_usingDHCP;
     if dhcp then do {
       result \<leftarrow> Ethernet_maintain d;
       if result \<noteq> 0 then
         (if result = 1 then Serial_println ''DHCP: Renew failed''
          else if result = 2 then do {
            Serial_print ''DHCP: Renewed - IP: '';
            ip \<leftarrow> Ethernet_localIP d;
            printIPAddress ip
          }
          else if result = 3 then Serial_println ''DHCP: Rebind failed''
          else if result = 4 then do {
            Serial_print ''DHCP: Rebound - IP: '';
            ip \<leftarrow> Ethernet_localIP d;
            printIPAddress ip
          }
          else State_Monad.return ())
       else State_Monad.return ()
     } else State_Monad.return ()
   }"

text \<open>
  The second block, under the comment ``Check link status periodically'':
  \<open>millis() - lastLinkCheck >= linkCheckInterval\<close> is unsigned 32-bit arithmetic.
\<close>

definition maintain_link_check :: "driver \<Rightarrow> ulong \<Rightarrow> (world, unit) state" where
  "maintain_link_check d linkCheckInterval = do {
     now \<leftarrow> millis d;
     last \<leftarrow> get_lastLinkCheck;
     if now - last \<ge> linkCheckInterval then do {
       linkStatus \<leftarrow> Ethernet_linkStatus d;
       previous \<leftarrow> get_lastLinkStatus;
       (if linkStatus \<noteq> previous then do {
          Serial_print ''Link status changed: '';
          (if linkStatus = LinkON then Serial_println ''Cable CONNECTED''
           else if linkStatus = LinkOFF then Serial_println ''Cable DISCONNECTED''
           else Serial_println ''Unknown'');
          set_lastLinkStatus linkStatus
        } else State_Monad.return ());
       t \<leftarrow> millis d;
       set_lastLinkCheck t
     } else State_Monad.return ()
   }"

definition EthernetHelper_maintain :: "driver \<Rightarrow> ulong \<Rightarrow> (world, unit) state" where
  "EthernetHelper_maintain d linkCheckInterval = do {
     maintain_dhcp_lease d;
     maintain_link_check d linkCheckInterval
   }"

definition EthernetHelper_printConfig :: "driver \<Rightarrow> (world, unit) state" where
  "EthernetHelper_printConfig d = do {
     Serial_println ''=== Network Configuration ==='';
     Serial_print ''IP: '';
     ip \<leftarrow> Ethernet_localIP d;
     printIPAddress ip;
     Serial_print ''Gateway: '';
     gw \<leftarrow> Ethernet_gatewayIP d;
     printIPAddress gw;
     Serial_print ''Subnet: '';
     sn \<leftarrow> Ethernet_subnetMask d;
     printIPAddress sn;
     Serial_print ''DNS: '';
     ds \<leftarrow> Ethernet_dnsServerIP d;
     printIPAddress ds;
     Serial_print ''Mode: '';
     dhcp \<leftarrow> get_usingDHCP;
     Serial_println (if dhcp then ''DHCP'' else ''Static'');
     printLinkStatus d;
     Serial_println ''============================''
   }"

text \<open>The default arguments of \<open>begin\<close> and \<open>maintain\<close>.\<close>

definition default_gateway :: IPAddress where "default_gateway = IPAddress 0 0 0 0"
definition default_subnet :: IPAddress where "default_subnet = IPAddress 255 255 255 0"
definition default_dns :: IPAddress where "default_dns = IPAddress 0 0 0 0"
definition default_dhcpTimeout :: ulong where "default_dhcpTimeout = 60000"
definition default_linkCheckInterval :: ulong where "default_linkCheckInterval = 10000"

section \<open>The two blocks of begin\<close>

text \<open>
  For the proofs, \<open>begin\<close> is cut at the end of its \<open>if\<close>/\<open>else\<close>: the attempt
  (DHCP, hardware check, static fallback), and the report of the final configuration
  that ends by anchoring \<open>lastLinkCheck\<close>. Lemma \<open>begin_blocks\<close> below shows that
  \<open>EthernetHelper_begin\<close> is the first followed by the second.
\<close>

definition begin_attempt ::
  "driver \<Rightarrow> byte list \<Rightarrow> IPAddress \<Rightarrow> IPAddress \<Rightarrow> IPAddress \<Rightarrow> IPAddress \<Rightarrow> ulong
     \<Rightarrow> (world, bool option) state" where
  "begin_attempt d mac fallbackIP gateway subnet dns dhcpTimeout = do {
     Serial_println ''=== Ethernet Initialization ==='';
     Serial_println ''Attempting DHCP configuration...'';
     startTime \<leftarrow> millis d;
     r \<leftarrow> Ethernet_begin_dhcp d mac dhcpTimeout;
     if r = 0 then do {
       Serial_println ''DHCP failed!'';
       hw \<leftarrow> Ethernet_hardwareStatus d;
       if hw = EthernetNoHardware then do {
         Serial_println ''ERROR: Ethernet shield not found!'';
         Serial_println ''Cannot continue without hardware.'';
         State_Monad.return (Some False)
       } else do {
         link \<leftarrow> Ethernet_linkStatus d;
         (if link = LinkOFF
          then Serial_println ''WARNING: Ethernet cable not connected''
          else State_Monad.return ());
         Serial_println ''Falling back to static IP configuration...'';
         let gateway =
           (if gateway = IPAddress 0 0 0 0
            then IPAddress (octet0 fallbackIP) (octet1 fallbackIP) (octet2 fallbackIP) 1
            else gateway);
         let dns = (if dns = IPAddress 0 0 0 0 then gateway else dns);
         Ethernet_begin_static mac fallbackIP dns gateway subnet;
         delay 1000;
         Serial_print ''  Static IP: '';
         set_usingDHCP False;
         State_Monad.return None
       }
     } else do {
       Serial_print ''  DHCP IP: '';
       set_usingDHCP True;
       State_Monad.return None
     }
   }"

definition begin_report :: "driver \<Rightarrow> (world, bool) state" where
  "begin_report d = do {
     ip \<leftarrow> Ethernet_localIP d;
     printIPAddress ip;
     Serial_print ''  Gateway: '';
     gw \<leftarrow> Ethernet_gatewayIP d;
     printIPAddress gw;
     Serial_print ''  Subnet: '';
     sn \<leftarrow> Ethernet_subnetMask d;
     printIPAddress sn;
     Serial_print ''  DNS: '';
     ds \<leftarrow> Ethernet_dnsServerIP d;
     printIPAddress ds;
     printLinkStatus d;
     Serial_println ''=== Ethernet Ready ==='';
     Serial_println_none;
     now \<leftarrow> millis d;
     set_lastLinkCheck now;
     State_Monad.return True
   }"

section \<open>Observing a run\<close>

text \<open>
  \<open>new_calls w w'\<close> are the calls made between the worlds \<open>w\<close> and \<open>w'\<close>, and
  \<open>new_serial w w'\<close> is what was written between them; a call count is
  \<open>count_list\<close> over the former.
\<close>

definition new_calls :: "world \<Rightarrow> world \<Rightarrow> call list" where
  "new_calls w w' = drop (length (calls w)) (calls w')"

definition new_serial :: "world \<Rightarrow> world \<Rightarrow> serial_output list" where
  "new_serial w w' = drop (length (serial w)) (serial w')"

text \<open>The static configurations applied to the driver by a list of calls, in order.\<close>

record static_config =
  cfg_ip :: IPAddress
  cfg_dns :: IPAddress
  cfg_gateway :: IPAddress
  cfg_subnet :: IPAddress

fun config_of :: "call \<Rightarrow> static_config list" where
  "config_of (Eth_begin_static mac ip dns gateway subnet) =
     [\<lparr>cfg_ip = ip, cfg_dns = dns, cfg_gateway = gateway, cfg_subnet = subnet\<rparr>]"
| "config_of _ = []"

definition static_configs :: "call list \<Rightarrow> static_config list" where
  "static_configs cs = concat (map config_of cs)"

text \<open>
  What the driver answers to the calls that \<open>begin\<close>, started in world \<open>w\<close>, makes
  before it decides: the DHCP attempt, and the hardware check that follows a failed
  attempt.
\<close>

definition dhcp_answer :: "driver \<Rightarrow> world \<Rightarrow> byte list \<Rightarrow> ulong \<Rightarrow> int" where
  "dhcp_answer d w mac dhcpTimeout =
     begin_result d (calls w @ [Call_millis, Eth_begin_dhcp mac dhcpTimeout])"

definition hardware_answer ::
  "driver \<Rightarrow> world \<Rightarrow> byte list \<Rightarrow> ulong \<Rightarrow> EthernetHardwareStatus" where
  "hardware_answer d w mac dhcpTimeout =
     hardwareStatus_result d
       (calls w @ [Call_millis, Eth_begin_dhcp mac dhcpTimeout, Eth_hardwareStatus])"

text \<open>
  The same for a call of \<open>maintain\<close> started in world \<open>w\<close>: the result code of the
  lease maintenance, the world in which the link-check block starts, the clock reading
  that the block compares with \<open>lastLinkCheck\<close>, the link state a fired check
  observes, and the clock reading a fired check stores.
\<close>

definition lease_answer :: "driver \<Rightarrow> world \<Rightarrow> byte" where
  "lease_answer d w = maintain_result d (calls w @ [Eth_maintain])"

definition after_lease :: "driver \<Rightarrow> world \<Rightarrow> world" where
  "after_lease d w = snd (run_state (maintain_dhcp_lease d) w)"

definition clock_at_check :: "driver \<Rightarrow> world \<Rightarrow> ulong" where
  "clock_at_check d w = millis_result d (calls (after_lease d w) @ [Call_millis])"

definition link_at_check :: "driver \<Rightarrow> world \<Rightarrow> EthernetLinkStatus" where
  "link_at_check d w =
     linkStatus_result d (calls (after_lease d w) @ [Call_millis, Eth_linkStatus])"

definition clock_after_check :: "driver \<Rightarrow> world \<Rightarrow> ulong" where
  "clock_after_check d w =
     millis_result d (calls (after_lease d w) @ [Call_millis, Eth_linkStatus, Call_millis])"

text \<open>Running \<open>maintain\<close> once for every interval of a list, in order.\<close>

fun maintain_calls :: "driver \<Rightarrow> ulong list \<Rightarrow> world \<Rightarrow> world" where
  "maintain_calls d [] w = w"
| "maintain_calls d (i # is) w =
     maintain_calls d is (snd (run_state (EthernetHelper_maintain d i) w))"

section \<open>Concrete drivers and worlds\<close>

text \<open>
  For the concrete runs: a driver that answers every call of a kind with the same
  value, the MAC address of the usage example in the header, and a world in which the
  three members differ from their initial values.
\<close>

definition fixed_driver ::
  "int \<Rightarrow> EthernetHardwareStatus \<Rightarrow> EthernetLinkStatus \<Rightarrow> byte \<Rightarrow> ulong \<Rightarrow> IPAddress \<Rightarrow> driver" where
  "fixed_driver r hw l m t ip =
     \<lparr>begin_result = (\<lambda>_. r), hardwareStatus_result = (\<lambda>_. hw),
      linkStatus_result = (\<lambda>_. l), maintain_result = (\<lambda>_. m),
      millis_result = (\<lambda>_. t), localIP_result = (\<lambda>_. ip),
      gatewayIP_result = (\<lambda>_. ip), subnetMask_result = (\<lambda>_. ip),
      dnsServerIP_result = (\<lambda>_. ip)\<rparr>"

definition mac0 :: "byte list" where
  "mac0 = [0xDE, 0xED, 0xBA, 0xFE, 0xFE, 0xC3]"

text \<open>No hardware; hardware without carrier and without DHCP; a DHCP lease.\<close>

definition absent_driver :: driver where
  "absent_driver = fixed_driver 0 EthernetNoHardware Unknown 0 0 (IPAddress 0 0 0 0)"

definition cable_down_driver :: driver where
  "cable_down_driver = fixed_driver 0 EthernetW5100 LinkOFF 0 5000 (IPAddress 10 0 0 50)"

definition dhcp_driver :: driver where
  "dhcp_driver = fixed_driver 1 EthernetW5100 LinkON 0 5000 (IPAddress 10 0 0 77)"

text \<open>A lease whose renewal fails (result code 1) while the cable is unplugged.\<close>

definition renew_failed_driver :: driver where
  "renew_failed_driver = fixed_driver 1 EthernetW5100 LinkOFF 1 5000 (IPAddress 10 0 0 77)"

definition running_world :: world where
  "running_world =
     \<lparr>usingDHCP = True, lastLinkStatus = LinkON, lastLinkCheck = 1234,
       calls = [], serial = []\<rparr>"

section \<open>Evaluation rules for the primitives\<close>

lemma run_emit: "run_state (emit c) w = ((), w\<lparr>calls := calls w @ [c]\<rparr>)"
  by (simp add: emit_def)

lemma run_ask:
  "run_state (ask c answer) w = (answer (calls w @ [c]), w\<lparr>calls := calls w @ [c]\<rparr>)"
  by (simp add: ask_def)

lemma run_write: "run_state (serial_write x) w = ((), w\<lparr>serial := serial w @ [x]\<rparr>)"
  by (simp add: serial_write_def)

lemmas run_prims =
  run_emit run_ask run_write Serial_print_def Serial_println_def Serial_print_num_def
  Serial_println_num_def Serial_println_none_def millis_def delay_def
  Ethernet_begin_dhcp_def Ethernet_begin_static_def Ethernet_hardwareStatus_def
  Ethernet_linkStatus_def Ethernet_maintain_def Ethernet_localIP_def
  Ethernet_gatewayIP_def Ethernet_subnetMask_def Ethernet_dnsServerIP_def
  set_usingDHCP_def set_lastLinkStatus_def set_lastLinkCheck_def
  get_usingDHCP_def get_lastLinkStatus_def get_lastLinkCheck_def

lemma run_printIPAddress:
  "run_state (printIPAddress ip) w =
     ((), w\<lparr>serial := serial w @
        [Print_byte (octet0 ip), Print_text ''.'',
         Print_byte (octet1 ip), Print_text ''.'',
         Print_byte (octet2 ip), Print_text ''.'',
         Println_byte (octet3 ip)]\<rparr>)"
  by (simp add: printIPAddress_def run_prims)

lemma run_printLinkStatus:
  "run_state (printLinkStatus d) w =
     ((), w\<lparr>calls := calls w @ [Eth_linkStatus],
             serial := serial w @
        [Print_text ''  Link: '',
         Println_text
           (if linkStatus_result d (calls w @ [Eth_linkStatus]) = LinkON then ''Connected''
            else if linkStatus_result d (calls w @ [Eth_linkStatus]) = LinkOFF
            then ''Disconnected'' else ''Unknown'')]\<rparr>)"
  by (simp add: printLinkStatus_def run_prims)

section \<open>begin: the three paths\<close>

lemma begin_blocks:
  "EthernetHelper_begin d mac fb gw sn dns t = do {
     early \<leftarrow> begin_attempt d mac fb gw sn dns t;
     case early of Some b \<Rightarrow> State_Monad.return b | None \<Rightarrow> begin_report d
   }"
  by (simp add: EthernetHelper_begin_def begin_attempt_def begin_report_def)

lemmas report_unfold = begin_report_def run_printIPAddress run_printLinkStatus run_prims

lemma report_fst: "fst (run_state (begin_report d) w) = True"
  by (simp add: report_unfold)

lemma report_calls:
  "calls (snd (run_state (begin_report d) w)) =
     calls w @ [Eth_localIP, Eth_gatewayIP, Eth_subnetMask, Eth_dnsServerIP,
                Eth_linkStatus, Call_millis]"
  by (simp add: report_unfold)

lemma report_usingDHCP: "usingDHCP (snd (run_state (begin_report d) w)) = usingDHCP w"
  by (simp add: report_unfold)

lemma report_lastLinkStatus:
  "lastLinkStatus (snd (run_state (begin_report d) w)) = lastLinkStatus w"
  by (simp add: report_unfold)

lemma report_lastLinkCheck:
  "lastLinkCheck (snd (run_state (begin_report d) w)) =
     millis_result d
       (calls w @ [Eth_localIP, Eth_gatewayIP, Eth_subnetMask, Eth_dnsServerIP,
                   Eth_linkStatus, Call_millis])"
  by (simp add: report_unfold)

lemma run_begin_attempt_fatal:
  "dhcp_answer d w mac t = 0 \<Longrightarrow> hardware_answer d w mac t = EthernetNoHardware \<Longrightarrow>
   run_state (begin_attempt d mac fb gw sn dns t) w =
     (Some False,
      w\<lparr>calls := calls w @ [Call_millis, Eth_begin_dhcp mac t, Eth_hardwareStatus],
        serial := serial w @
          [Println_text ''=== Ethernet Initialization ==='',
           Println_text ''Attempting DHCP configuration...'',
           Println_text ''DHCP failed!'',
           Println_text ''ERROR: Ethernet shield not found!'',
           Println_text ''Cannot continue without hardware.'']\<rparr>)"
  by (simp add: begin_attempt_def run_prims dhcp_answer_def hardware_answer_def)

lemma run_begin_attempt_dhcp:
  "dhcp_answer d w mac t \<noteq> 0 \<Longrightarrow>
   run_state (begin_attempt d mac fb gw sn dns t) w =
     (None,
      w\<lparr>usingDHCP := True,
        calls := calls w @ [Call_millis, Eth_begin_dhcp mac t],
        serial := serial w @
          [Println_text ''=== Ethernet Initialization ==='',
           Println_text ''Attempting DHCP configuration...'',
           Print_text ''  DHCP IP: '']\<rparr>)"
  by (simp add: begin_attempt_def run_prims dhcp_answer_def)

lemma run_begin_attempt_static:
  "dhcp_answer d w mac t = 0 \<Longrightarrow> hardware_answer d w mac t \<noteq> EthernetNoHardware \<Longrightarrow>
   run_state (begin_attempt d mac fb gw sn dns t) w =
     (None,
      w\<lparr>usingDHCP := False,
        calls := calls w @
          [Call_millis, Eth_begin_dhcp mac t, Eth_hardwareStatus, Eth_linkStatus,
           Eth_begin_static mac fb
             (if dns = IPAddress 0 0 0 0
              then (if gw = IPAddress 0 0 0 0
                    then IPAddress (octet0 fb) (octet1 fb) (octet2 fb) 1 else gw)
              else dns)
             (if gw = IPAddress 0 0 0 0
              then IPAddress (octet0 fb) (octet1 fb) (octet2 fb) 1 else gw)
             sn,
           Call_delay 1000],
        serial := serial w @
          [Println_text ''=== Ethernet Initialization ==='',
           Println_text ''Attempting DHCP configuration...'',
           Println_text ''DHCP failed!''] @
          (if linkStatus_result d
                (calls w @ [Call_millis, Eth_begin_dhcp mac t, Eth_hardwareStatus,
                            Eth_linkStatus]) = LinkOFF
           then [Println_text ''WARNING: Ethernet cable not connected''] else []) @
          [Println_text ''Falling back to static IP configuration...'',
           Print_text ''  Static IP: '']\<rparr>)"
  by (simp add: begin_attempt_def run_prims dhcp_answer_def hardware_answer_def Let_def)

lemma begin_returns:
  "fst (run_state (EthernetHelper_begin d mac fb gw sn dns t) w) =
     (\<not> (dhcp_answer d w mac t = 0 \<and> hardware_answer d w mac t = EthernetNoHardware))"
proof (cases "dhcp_answer d w mac t = 0")
  case False
  then show ?thesis
    by (simp add: begin_blocks run_begin_attempt_dhcp report_fst)
next
  case dhcp: True
  show ?thesis
  proof (cases "hardware_answer d w mac t = EthernetNoHardware")
    case True
    with dhcp show ?thesis
      by (simp add: begin_blocks run_begin_attempt_fatal)
  next
    case False
    with dhcp show ?thesis
      by (simp add: begin_blocks run_begin_attempt_static report_fst)
  qed
qed

lemma begin_fatal_world:
  "dhcp_answer d w mac t = 0 \<Longrightarrow> hardware_answer d w mac t = EthernetNoHardware \<Longrightarrow>
   snd (run_state (EthernetHelper_begin d mac fb gw sn dns t) w) =
      w\<lparr>calls := calls w @ [Call_millis, Eth_begin_dhcp mac t, Eth_hardwareStatus],
        serial := serial w @
          [Println_text ''=== Ethernet Initialization ==='',
           Println_text ''Attempting DHCP configuration...'',
           Println_text ''DHCP failed!'',
           Println_text ''ERROR: Ethernet shield not found!'',
           Println_text ''Cannot continue without hardware.'']\<rparr>"
  by (simp add: begin_blocks run_begin_attempt_fatal)

lemma begin_static_calls:
  "dhcp_answer d w mac t = 0 \<Longrightarrow> hardware_answer d w mac t \<noteq> EthernetNoHardware \<Longrightarrow>
   calls (snd (run_state (EthernetHelper_begin d mac fb gw sn dns t) w)) =
     calls w @
          [Call_millis, Eth_begin_dhcp mac t, Eth_hardwareStatus, Eth_linkStatus,
           Eth_begin_static mac fb
             (if dns = IPAddress 0 0 0 0
              then (if gw = IPAddress 0 0 0 0
                    then IPAddress (octet0 fb) (octet1 fb) (octet2 fb) 1 else gw)
              else dns)
             (if gw = IPAddress 0 0 0 0
              then IPAddress (octet0 fb) (octet1 fb) (octet2 fb) 1 else gw)
             sn,
           Call_delay 1000,
           Eth_localIP, Eth_gatewayIP, Eth_subnetMask, Eth_dnsServerIP,
           Eth_linkStatus, Call_millis]"
  by (simp add: begin_blocks run_begin_attempt_static report_calls)

lemma begin_dhcp_calls:
  "dhcp_answer d w mac t \<noteq> 0 \<Longrightarrow>
   calls (snd (run_state (EthernetHelper_begin d mac fb gw sn dns t) w)) =
     calls w @
          [Call_millis, Eth_begin_dhcp mac t,
           Eth_localIP, Eth_gatewayIP, Eth_subnetMask, Eth_dnsServerIP,
           Eth_linkStatus, Call_millis]"
  by (simp add: begin_blocks run_begin_attempt_dhcp report_calls)

lemma begin_static_usingDHCP:
  "dhcp_answer d w mac t = 0 \<Longrightarrow> hardware_answer d w mac t \<noteq> EthernetNoHardware \<Longrightarrow>
   usingDHCP (snd (run_state (EthernetHelper_begin d mac fb gw sn dns t) w)) = False"
  by (simp add: begin_blocks run_begin_attempt_static report_usingDHCP)

lemma begin_dhcp_usingDHCP:
  "dhcp_answer d w mac t \<noteq> 0 \<Longrightarrow>
   usingDHCP (snd (run_state (EthernetHelper_begin d mac fb gw sn dns t) w)) = True"
  by (simp add: begin_blocks run_begin_attempt_dhcp report_usingDHCP)

lemma begin_fatal_configs:
  assumes "dhcp_answer d w mac t = 0" and "hardware_answer d w mac t = EthernetNoHardware"
  shows "static_configs
           (new_calls w (snd (run_state (EthernetHelper_begin d mac fb gw sn dns t) w))) = []"
  by (simp add: begin_fatal_world [OF assms] new_calls_def static_configs_def)

lemma begin_static_configs:
  assumes "dhcp_answer d w mac t = 0" and "hardware_answer d w mac t \<noteq> EthernetNoHardware"
  shows "static_configs
           (new_calls w (snd (run_state (EthernetHelper_begin d mac fb gw sn dns t) w))) =
         [\<lparr>cfg_ip = fb,
           cfg_dns =
             (if dns = IPAddress 0 0 0 0
              then (if gw = IPAddress 0 0 0 0
                    then IPAddress (octet0 fb) (octet1 fb) (octet2 fb) 1 else gw)
              else dns),
           cfg_gateway =
             (if gw = IPAddress 0 0 0 0
              then IPAddress (octet0 fb) (octet1 fb) (octet2 fb) 1 else gw),
           cfg_subnet = sn\<rparr>]"
  by (simp add: begin_static_calls [OF assms] new_calls_def static_configs_def)

lemma begin_dhcp_configs:
  assumes "dhcp_answer d w mac t \<noteq> 0"
  shows "static_configs
           (new_calls w (snd (run_state (EthernetHelper_begin d mac fb gw sn dns t) w))) = []"
  by (simp add: begin_dhcp_calls [OF assms] new_calls_def static_configs_def)

lemma absent_driver_answers:
  "dhcp_answer absent_driver w mac t = 0"
  "hardware_answer absent_driver w mac t = EthernetNoHardware"
  by (simp_all add: absent_driver_def fixed_driver_def dhcp_answer_def hardware_answer_def)

lemma cable_down_driver_answers:
  "dhcp_answer cable_down_driver w mac t = 0"
  "hardware_answer cable_down_driver w mac t \<noteq> EthernetNoHardware"
  by (simp_all add: cable_down_driver_def fixed_driver_def dhcp_answer_def hardware_answer_def)

lemma dhcp_driver_answers:
  "dhcp_answer dhcp_driver w mac t \<noteq> 0"
  by (simp_all add: dhcp_driver_def fixed_driver_def dhcp_answer_def)

section \<open>maintain: the two blocks\<close>

lemmas lease_unfold =
  after_lease_def maintain_dhcp_lease_def lease_answer_def run_printIPAddress run_prims

lemma lease_usingDHCP: "usingDHCP (after_lease d w) = usingDHCP w"
  by (simp add: lease_unfold)

lemma lease_lastLinkStatus: "lastLinkStatus (after_lease d w) = lastLinkStatus w"
  by (simp add: lease_unfold)

lemma lease_lastLinkCheck: "lastLinkCheck (after_lease d w) = lastLinkCheck w"
  by (simp add: lease_unfold)

lemma lease_calls:
  "calls (after_lease d w) =
     calls w @
     (if usingDHCP w
      then Eth_maintain #
           (if lease_answer d w = 2 \<or> lease_answer d w = 4 then [Eth_localIP] else [])
      else [])"
  by (simp add: lease_unfold)

lemma lease_serial_prefix: "take (length (serial w)) (serial (after_lease d w)) = serial w"
  by (simp add: lease_unfold)

lemma lease_no_transition_entry:
  "count_list (new_serial w (after_lease d w)) (Print_text ''Link status changed: '') = 0"
  by (simp add: lease_unfold new_serial_def)

lemma run_lease_unit: "run_state (maintain_dhcp_lease d) w = ((), after_lease d w)"
  by (cases "run_state (maintain_dhcp_lease d) w") (simp add: after_lease_def)

lemma maintain_blocks:
  "run_state (EthernetHelper_maintain d i) w =
     run_state (maintain_link_check d i) (after_lease d w)"
  by (simp add: EthernetHelper_maintain_def run_lease_unit)

lemma run_link_check_idle:
  "millis_result d (calls w @ [Call_millis]) - lastLinkCheck w < i \<Longrightarrow>
   run_state (maintain_link_check d i) w = ((), w\<lparr>calls := calls w @ [Call_millis]\<rparr>)"
  by (simp add: maintain_link_check_def run_prims not_le [symmetric])

lemma run_link_check_same:
  "i \<le> millis_result d (calls w @ [Call_millis]) - lastLinkCheck w \<Longrightarrow>
   linkStatus_result d (calls w @ [Call_millis, Eth_linkStatus]) = lastLinkStatus w \<Longrightarrow>
   run_state (maintain_link_check d i) w =
     ((), w\<lparr>lastLinkCheck :=
                millis_result d (calls w @ [Call_millis, Eth_linkStatus, Call_millis]),
             calls := calls w @ [Call_millis, Eth_linkStatus, Call_millis]\<rparr>)"
  by (simp add: maintain_link_check_def run_prims)

lemma run_link_check_changed:
  "i \<le> millis_result d (calls w @ [Call_millis]) - lastLinkCheck w \<Longrightarrow>
   linkStatus_result d (calls w @ [Call_millis, Eth_linkStatus]) \<noteq> lastLinkStatus w \<Longrightarrow>
   run_state (maintain_link_check d i) w =
     ((), w\<lparr>lastLinkStatus := linkStatus_result d (calls w @ [Call_millis, Eth_linkStatus]),
             lastLinkCheck :=
                millis_result d (calls w @ [Call_millis, Eth_linkStatus, Call_millis]),
             calls := calls w @ [Call_millis, Eth_linkStatus, Call_millis],
             serial := serial w @
               [Print_text ''Link status changed: '',
                Println_text
                  (if linkStatus_result d (calls w @ [Call_millis, Eth_linkStatus]) = LinkON
                   then ''Cable CONNECTED''
                   else if linkStatus_result d (calls w @ [Call_millis, Eth_linkStatus]) = LinkOFF
                   then ''Cable DISCONNECTED'' else ''Unknown'')]\<rparr>)"
  by (simp add: maintain_link_check_def run_prims)


lemma lease_output:
  "\<exists>out. serial (after_lease d w) = serial w @ out
         \<and> count_list out (Print_text ''Link status changed: '') = 0"
proof -
  have "serial (after_lease d w) = serial w @ new_serial w (after_lease d w)"
    unfolding new_serial_def
    by (metis append_take_drop_id lease_serial_prefix)
  with lease_no_transition_entry show ?thesis by blast
qed

lemma maintain_usingDHCP:
  "usingDHCP (snd (run_state (EthernetHelper_maintain d i) w)) = usingDHCP w"
proof (cases "i \<le> clock_at_check d w - lastLinkCheck w")
  case False
  then have "millis_result d (calls (after_lease d w) @ [Call_millis])
               - lastLinkCheck (after_lease d w) < i"
    by (simp add: clock_at_check_def lease_lastLinkCheck)
  then show ?thesis
    by (simp add: maintain_blocks run_link_check_idle lease_usingDHCP)
next
  case True
  then have due: "i \<le> millis_result d (calls (after_lease d w) @ [Call_millis])
               - lastLinkCheck (after_lease d w)"
    by (simp add: clock_at_check_def lease_lastLinkCheck)
  show ?thesis
  proof (cases "linkStatus_result d (calls (after_lease d w) @ [Call_millis, Eth_linkStatus])
                  = lastLinkStatus (after_lease d w)")
    case True
    with due show ?thesis
      by (simp add: maintain_blocks run_link_check_same lease_usingDHCP)
  next
    case False
    with due show ?thesis
      by (simp add: maintain_blocks run_link_check_changed lease_usingDHCP)
  qed
qed

lemma link_check_calls:
  "calls (snd (run_state (maintain_link_check d i) w)) =
     calls w @ Call_millis #
       (if i \<le> millis_result d (calls w @ [Call_millis]) - lastLinkCheck w
        then [Eth_linkStatus, Call_millis] else [])"
proof (cases "i \<le> millis_result d (calls w @ [Call_millis]) - lastLinkCheck w")
  case False
  then show ?thesis by (simp add: run_link_check_idle)
next
  case due: True
  show ?thesis
  proof (cases "linkStatus_result d (calls w @ [Call_millis, Eth_linkStatus]) = lastLinkStatus w")
    case True
    with due show ?thesis by (simp add: run_link_check_same)
  next
    case False
    with due show ?thesis by (simp add: run_link_check_changed)
  qed
qed

lemma maintain_new_calls:
  "calls (snd (run_state (EthernetHelper_maintain d i) w)) =
     calls w @
     (if usingDHCP w
      then Eth_maintain #
           (if lease_answer d w = 2 \<or> lease_answer d w = 4 then [Eth_localIP] else [])
      else []) @
     Call_millis #
       (if i \<le> clock_at_check d w - lastLinkCheck w
        then [Eth_linkStatus, Call_millis] else [])"
  by (simp add: maintain_blocks link_check_calls lease_calls lease_lastLinkCheck
        clock_at_check_def)

lemma maintain_count_lease:
  "count_list (new_calls w (snd (run_state (EthernetHelper_maintain d i) w))) Eth_maintain =
     (if usingDHCP w then 1 else 0)"
  by (simp add: maintain_new_calls new_calls_def)

lemma maintain_count_link:
  "count_list (new_calls w (snd (run_state (EthernetHelper_maintain d i) w))) Eth_linkStatus =
     (if i \<le> clock_at_check d w - lastLinkCheck w then 1 else 0)"
  by (simp add: maintain_new_calls new_calls_def)

lemma maintain_calls_usingDHCP: "usingDHCP (maintain_calls d is w) = usingDHCP w"
  by (induction "is" arbitrary: w) (simp_all add: maintain_usingDHCP)

lemma maintain_calls_count_lease:
  "\<exists>cs. calls (maintain_calls d is w) = calls w @ cs
        \<and> count_list cs Eth_maintain = (if usingDHCP w then length is else 0)"
proof (induction "is" arbitrary: w)
  case Nil
  then show ?case by simp
next
  case (Cons i "is")
  let ?w1 = "snd (run_state (EthernetHelper_maintain d i) w)"
  obtain cs where cs: "calls (maintain_calls d is ?w1) = calls ?w1 @ cs"
      "count_list cs Eth_maintain = (if usingDHCP ?w1 then length is else 0)"
    using Cons.IH [of ?w1] by blast
  have step: "calls ?w1 = calls w @ new_calls w ?w1"
    by (simp add: maintain_new_calls new_calls_def)
  have "calls (maintain_calls d (i # is) w) = calls w @ (new_calls w ?w1 @ cs)"
    using cs(1) step by simp
  moreover have "count_list (new_calls w ?w1 @ cs) Eth_maintain =
                   (if usingDHCP w then length (i # is) else 0)"
    using cs(2) by (simp add: maintain_count_lease maintain_usingDHCP)
  ultimately show ?case by blast
qed

lemma maintain_calls_new_count:
  "count_list (new_calls w (maintain_calls d is w)) Eth_maintain =
     (if usingDHCP w then length is else 0)"
proof -
  obtain cs where "calls (maintain_calls d is w) = calls w @ cs"
      "count_list cs Eth_maintain = (if usingDHCP w then length is else 0)"
    using maintain_calls_count_lease by blast
  then show ?thesis by (simp add: new_calls_def)
qed

lemma maintain_lastLinkCheck:
  "lastLinkCheck (snd (run_state (EthernetHelper_maintain d i) w)) =
     (if i \<le> clock_at_check d w - lastLinkCheck w
      then clock_after_check d w else lastLinkCheck w)"
proof (cases "i \<le> clock_at_check d w - lastLinkCheck w")
  case False
  then have "millis_result d (calls (after_lease d w) @ [Call_millis])
               - lastLinkCheck (after_lease d w) < i"
    by (simp add: clock_at_check_def lease_lastLinkCheck)
  with False show ?thesis
    by (simp add: maintain_blocks run_link_check_idle lease_lastLinkCheck)
next
  case True
  then have due: "i \<le> millis_result d (calls (after_lease d w) @ [Call_millis])
               - lastLinkCheck (after_lease d w)"
    by (simp add: clock_at_check_def lease_lastLinkCheck)
  show ?thesis
  proof (cases "linkStatus_result d (calls (after_lease d w) @ [Call_millis, Eth_linkStatus])
                  = lastLinkStatus (after_lease d w)")
    case same: True
    with due True show ?thesis
      by (simp add: maintain_blocks run_link_check_same clock_after_check_def)
  next
    case False
    with due True show ?thesis
      by (simp add: maintain_blocks run_link_check_changed clock_after_check_def)
  qed
qed

lemma maintain_fired_changed:
  assumes "i \<le> clock_at_check d w - lastLinkCheck w"
    and "link_at_check d w \<noteq> lastLinkStatus w"
  shows "lastLinkStatus (snd (run_state (EthernetHelper_maintain d i) w)) = link_at_check d w"
    and "new_serial (after_lease d w) (snd (run_state (EthernetHelper_maintain d i) w)) =
           [Print_text ''Link status changed: '',
            Println_text
              (if link_at_check d w = LinkON then ''Cable CONNECTED''
               else if link_at_check d w = LinkOFF then ''Cable DISCONNECTED''
               else ''Unknown'')]"
proof -
  have due: "i \<le> millis_result d (calls (after_lease d w) @ [Call_millis])
               - lastLinkCheck (after_lease d w)"
    using assms(1) by (simp add: clock_at_check_def lease_lastLinkCheck)
  have changed: "linkStatus_result d (calls (after_lease d w) @ [Call_millis, Eth_linkStatus])
                  \<noteq> lastLinkStatus (after_lease d w)"
    using assms(2) by (simp add: link_at_check_def lease_lastLinkStatus)
  show "lastLinkStatus (snd (run_state (EthernetHelper_maintain d i) w)) = link_at_check d w"
    by (simp add: maintain_blocks run_link_check_changed [OF due changed] link_at_check_def)
  show "new_serial (after_lease d w) (snd (run_state (EthernetHelper_maintain d i) w)) =
           [Print_text ''Link status changed: '',
            Println_text
              (if link_at_check d w = LinkON then ''Cable CONNECTED''
               else if link_at_check d w = LinkOFF then ''Cable DISCONNECTED''
               else ''Unknown'')]"
    by (simp add: maintain_blocks run_link_check_changed [OF due changed] link_at_check_def
          new_serial_def)
qed

lemma maintain_fired_same:
  assumes "i \<le> clock_at_check d w - lastLinkCheck w"
    and "link_at_check d w = lastLinkStatus w"
  shows "lastLinkStatus (snd (run_state (EthernetHelper_maintain d i) w)) = lastLinkStatus w"
    and "new_serial (after_lease d w) (snd (run_state (EthernetHelper_maintain d i) w)) = []"
proof -
  have due: "i \<le> millis_result d (calls (after_lease d w) @ [Call_millis])
               - lastLinkCheck (after_lease d w)"
    using assms(1) by (simp add: clock_at_check_def lease_lastLinkCheck)
  have same: "linkStatus_result d (calls (after_lease d w) @ [Call_millis, Eth_linkStatus])
                  = lastLinkStatus (after_lease d w)"
    using assms(2) by (simp add: link_at_check_def lease_lastLinkStatus)
  show "lastLinkStatus (snd (run_state (EthernetHelper_maintain d i) w)) = lastLinkStatus w"
    by (simp add: maintain_blocks run_link_check_same [OF due same] lease_lastLinkStatus)
  show "new_serial (after_lease d w) (snd (run_state (EthernetHelper_maintain d i) w)) = []"
    by (simp add: maintain_blocks run_link_check_same [OF due same] new_serial_def)
qed

lemma new_serial_split:
  "new_serial w (snd (run_state (EthernetHelper_maintain d i) w)) =
     new_serial w (after_lease d w)
     @ new_serial (after_lease d w) (snd (run_state (EthernetHelper_maintain d i) w))"
proof -
  obtain out where out: "serial (after_lease d w) = serial w @ out"
    using lease_output by blast
  have "\<exists>out'. serial (snd (run_state (maintain_link_check d i) (after_lease d w)))
           = serial (after_lease d w) @ out'"
  proof (cases "i \<le> millis_result d (calls (after_lease d w) @ [Call_millis])
               - lastLinkCheck (after_lease d w)")
    case False
    then show ?thesis by (simp add: run_link_check_idle)
  next
    case due: True
    show ?thesis
    proof (cases "linkStatus_result d (calls (after_lease d w) @ [Call_millis, Eth_linkStatus])
                  = lastLinkStatus (after_lease d w)")
      case True
      with due show ?thesis by (simp add: run_link_check_same)
    next
      case False
      with due show ?thesis by (simp add: run_link_check_changed)
    qed
  qed
  then obtain out' where
    "serial (snd (run_state (EthernetHelper_maintain d i) w)) = serial (after_lease d w) @ out'"
    by (auto simp: maintain_blocks)
  with out show ?thesis by (simp add: new_serial_def)
qed

lemma maintain_lastLinkStatus_idle:
  assumes "clock_at_check d w - lastLinkCheck w < i"
  shows "lastLinkStatus (snd (run_state (EthernetHelper_maintain d i) w)) = lastLinkStatus w"
proof -
  from assms have "millis_result d (calls (after_lease d w) @ [Call_millis])
               - lastLinkCheck (after_lease d w) < i"
    by (simp add: clock_at_check_def lease_lastLinkCheck)
  then show ?thesis
    by (simp add: maintain_blocks run_link_check_idle lease_lastLinkStatus)
qed

lemma clock_without_lease:
  "usingDHCP w = False \<Longrightarrow> clock_at_check d w = millis_result d (calls w @ [Call_millis])"
  by (simp add: clock_at_check_def lease_calls)

lemma maintain_first_check_count:
  assumes "usingDHCP w = False" and "lastLinkCheck w = 0"
  shows "count_list (new_calls w (snd (run_state (EthernetHelper_maintain d i) w)))
           Eth_linkStatus
           = (if i \<le> millis_result d (calls w @ [Call_millis]) then 1 else 0)"
  by (simp add: maintain_count_link clock_without_lease assms)

lemma maintain_first_check_idle:
  assumes "usingDHCP w = False" and "lastLinkStatus w = Unknown" and "lastLinkCheck w = 0"
    and "millis_result d (calls w @ [Call_millis]) < i"
  shows "usingDHCP (snd (run_state (EthernetHelper_maintain d i) w)) = False"
    and "lastLinkStatus (snd (run_state (EthernetHelper_maintain d i) w)) = Unknown"
    and "lastLinkCheck (snd (run_state (EthernetHelper_maintain d i) w)) = 0"
proof -
  have idle: "clock_at_check d w - lastLinkCheck w < i"
    using assms by (simp add: clock_without_lease)
  show "usingDHCP (snd (run_state (EthernetHelper_maintain d i) w)) = False"
    by (simp add: maintain_usingDHCP assms)
  show "lastLinkStatus (snd (run_state (EthernetHelper_maintain d i) w)) = Unknown"
    by (simp add: maintain_lastLinkStatus_idle [OF idle] assms)
  show "lastLinkCheck (snd (run_state (EthernetHelper_maintain d i) w)) = 0"
    using idle by (simp add: maintain_lastLinkCheck assms not_le [symmetric])
qed

section \<open>The observations are the driver's answers\<close>

text \<open>
  Each observation of section ``Observing a run'' is the value that the call in
  question returns when the code up to it is run.
\<close>

lemma dhcp_answer_returned:
  "fst (run_state (do {
          Serial_println ''=== Ethernet Initialization ==='';
          Serial_println ''Attempting DHCP configuration...'';
          startTime \<leftarrow> millis d;
          Ethernet_begin_dhcp d mac t
        }) w) = dhcp_answer d w mac t"
  by (simp add: run_prims dhcp_answer_def)

lemma hardware_answer_returned:
  "fst (run_state (do {
          Serial_println ''=== Ethernet Initialization ==='';
          Serial_println ''Attempting DHCP configuration...'';
          startTime \<leftarrow> millis d;
          r \<leftarrow> Ethernet_begin_dhcp d mac t;
          Serial_println ''DHCP failed!'';
          Ethernet_hardwareStatus d
        }) w) = hardware_answer d w mac t"
  by (simp add: run_prims hardware_answer_def)

lemma lease_answer_returned:
  "fst (run_state (Ethernet_maintain d) w) = lease_answer d w"
  by (simp add: run_prims lease_answer_def)

lemma clock_at_check_returned:
  "fst (run_state (millis d) (after_lease d w)) = clock_at_check d w"
  by (simp add: run_prims clock_at_check_def)

lemma link_at_check_returned:
  "fst (run_state (do { now \<leftarrow> millis d; Ethernet_linkStatus d }) (after_lease d w))
     = link_at_check d w"
  by (simp add: run_prims link_at_check_def)

lemma clock_after_check_returned:
  "fst (run_state (do { now \<leftarrow> millis d; l \<leftarrow> Ethernet_linkStatus d; millis d })
          (after_lease d w))
     = clock_after_check d w"
  by (simp add: run_prims clock_after_check_def)

section \<open>What the fixed drivers answer\<close>

lemma fixed_driver_answers:
  "dhcp_answer (fixed_driver r hw l m t ip) w mac timeout = r"
  "hardware_answer (fixed_driver r hw l m t ip) w mac timeout = hw"
  "lease_answer (fixed_driver r hw l m t ip) w = m"
  "clock_at_check (fixed_driver r hw l m t ip) w = t"
  "link_at_check (fixed_driver r hw l m t ip) w = l"
  "clock_after_check (fixed_driver r hw l m t ip) w = t"
  by (simp_all add: fixed_driver_def dhcp_answer_def hardware_answer_def lease_answer_def
        clock_at_check_def link_at_check_def clock_after_check_def)

section \<open>begin: failure, fallback and defaults\<close>

text \<open>
  Claim C1. \<open>begin\<close> returns false exactly when the DHCP attempt fails and the hardware
  check that follows it reports \<open>EthernetNoHardware\<close>, whatever the other arguments
  are. On that path no static configuration reaches the driver. When the DHCP attempt
  fails and the hardware is present (whatever the link state), \<open>begin\<close> returns true,
  the mode is static, and exactly one static configuration is applied: the fallback
  address with the defaulted DNS server and gateway and the given subnet mask.
\<close>

theorem begin_fails_iff_hardware_absent:
  "(fst (run_state (EthernetHelper_begin d mac fb gw sn dns t) w) = False) =
     (dhcp_answer d w mac t = 0 \<and> hardware_answer d w mac t = EthernetNoHardware)
   \<and> (dhcp_answer d w mac t = 0 \<and> hardware_answer d w mac t = EthernetNoHardware \<longrightarrow>
        static_configs
          (new_calls w (snd (run_state (EthernetHelper_begin d mac fb gw sn dns t) w))) = [])
   \<and> (dhcp_answer d w mac t = 0 \<and> hardware_answer d w mac t \<noteq> EthernetNoHardware \<longrightarrow>
        fst (run_state (EthernetHelper_begin d mac fb gw sn dns t) w) = True
        \<and> usingDHCP (snd (run_state (EthernetHelper_begin d mac fb gw sn dns t) w)) = False
        \<and> static_configs
             (new_calls w (snd (run_state (EthernetHelper_begin d mac fb gw sn dns t) w))) =
            [\<lparr>cfg_ip = fb,
              cfg_dns =
                (if dns = IPAddress 0 0 0 0
                 then (if gw = IPAddress 0 0 0 0
                       then IPAddress (octet0 fb) (octet1 fb) (octet2 fb) 1 else gw)
                 else dns),
              cfg_gateway =
                (if gw = IPAddress 0 0 0 0
                 then IPAddress (octet0 fb) (octet1 fb) (octet2 fb) 1 else gw),
              cfg_subnet = sn\<rparr>])"
  by (simp add: begin_returns begin_fatal_configs begin_static_configs begin_static_usingDHCP)

text \<open>
  The shield is missing, and the shield is there with the cable unplugged (fallback
  10.0.0.50, every other argument at its default).
\<close>

theorem begin_fails_iff_hardware_absent_witness:
  "dhcp_answer absent_driver initial_world mac0 60000 = 0
   \<and> hardware_answer absent_driver initial_world mac0 60000 = EthernetNoHardware
   \<and> fst (run_state (EthernetHelper_begin absent_driver mac0 (IPAddress 10 0 0 50)
              default_gateway default_subnet default_dns 60000) initial_world) = False
   \<and> static_configs (new_calls initial_world
         (snd (run_state (EthernetHelper_begin absent_driver mac0 (IPAddress 10 0 0 50)
              default_gateway default_subnet default_dns 60000) initial_world))) = []
   \<and> dhcp_answer cable_down_driver initial_world mac0 60000 = 0
   \<and> hardware_answer cable_down_driver initial_world mac0 60000 \<noteq> EthernetNoHardware
   \<and> fst (run_state (EthernetHelper_begin cable_down_driver mac0 (IPAddress 10 0 0 50)
              default_gateway default_subnet default_dns 60000) initial_world) = True
   \<and> usingDHCP (snd (run_state (EthernetHelper_begin cable_down_driver mac0
              (IPAddress 10 0 0 50) default_gateway default_subnet default_dns 60000)
              initial_world)) = False
   \<and> static_configs (new_calls initial_world
         (snd (run_state (EthernetHelper_begin cable_down_driver mac0 (IPAddress 10 0 0 50)
              default_gateway default_subnet default_dns 60000) initial_world))) =
       [\<lparr>cfg_ip = IPAddress 10 0 0 50, cfg_dns = IPAddress 10 0 0 1,
         cfg_gateway = IPAddress 10 0 0 1, cfg_subnet = IPAddress 255 255 255 0\<rparr>]"
  using
    begin_fails_iff_hardware_absent [of absent_driver mac0 "IPAddress 10 0 0 50"
      default_gateway default_subnet default_dns 60000 initial_world]
    begin_fails_iff_hardware_absent [of cable_down_driver mac0 "IPAddress 10 0 0 50"
      default_gateway default_subnet default_dns 60000 initial_world]
  by (simp add: absent_driver_answers cable_down_driver_answers default_gateway_def
        default_dns_def default_subnet_def)

text \<open>
  Claim C3. When the DHCP attempt fails with the hardware present and the gateway
  argument is 0.0.0.0, the gateway applied with the fallback address A.B.C.D is
  A.B.C.1, for all octets (D = 1 included); a gateway argument other than 0.0.0.0 is
  applied as given.
\<close>

theorem gateway_derived_from_fallback:
  assumes "dhcp_answer d w mac t = 0" and "hardware_answer d w mac t \<noteq> EthernetNoHardware"
  shows "map cfg_gateway
           (static_configs
             (new_calls w
               (snd (run_state
                 (EthernetHelper_begin d mac (IPAddress A B C D) (IPAddress 0 0 0 0) sn dns t)
                 w)))) = [IPAddress A B C 1]
         \<and> (gw \<noteq> IPAddress 0 0 0 0 \<longrightarrow>
              map cfg_gateway
                (static_configs
                  (new_calls w
                    (snd (run_state
                      (EthernetHelper_begin d mac (IPAddress A B C D) gw sn dns t) w))))
              = [gw])"
  by (simp add: begin_static_configs [OF assms])

text \<open>From 192.168.1.100 and from 192.168.1.1; and a gateway 192.168.1.254 given.\<close>

theorem gateway_derived_from_fallback_witness:
  "dhcp_answer cable_down_driver initial_world mac0 60000 = 0
   \<and> hardware_answer cable_down_driver initial_world mac0 60000 \<noteq> EthernetNoHardware
   \<and> map cfg_gateway
        (static_configs
          (new_calls initial_world
            (snd (run_state
              (EthernetHelper_begin cable_down_driver mac0 (IPAddress 192 168 1 100)
                 (IPAddress 0 0 0 0) default_subnet default_dns 60000)
              initial_world)))) = [IPAddress 192 168 1 1]
   \<and> map cfg_gateway
        (static_configs
          (new_calls initial_world
            (snd (run_state
              (EthernetHelper_begin cable_down_driver mac0 (IPAddress 192 168 1 1)
                 (IPAddress 0 0 0 0) default_subnet default_dns 60000)
              initial_world)))) = [IPAddress 192 168 1 1]
   \<and> IPAddress 192 168 1 254 \<noteq> IPAddress 0 0 0 0
   \<and> map cfg_gateway
        (static_configs
          (new_calls initial_world
            (snd (run_state
              (EthernetHelper_begin cable_down_driver mac0 (IPAddress 192 168 1 100)
                 (IPAddress 192 168 1 254) default_subnet default_dns 60000)
              initial_world)))) = [IPAddress 192 168 1 254]"
  using
    gateway_derived_from_fallback [of cable_down_driver initial_world mac0 60000
      192 168 1 100 default_subnet default_dns "IPAddress 192 168 1 254"]
    gateway_derived_from_fallback [of cable_down_driver initial_world mac0 60000
      192 168 1 1 default_subnet default_dns "IPAddress 192 168 1 254"]
  by (simp add: cable_down_driver_answers)

text \<open>
  Claim C4. When the static fallback is taken and the DNS argument is 0.0.0.0, the DNS
  server applied is the gateway applied, whether that gateway was given or derived
  from the fallback address.
\<close>

theorem dns_defaults_to_gateway:
  assumes "dhcp_answer d w mac t = 0" and "hardware_answer d w mac t \<noteq> EthernetNoHardware"
  shows "map cfg_dns
           (static_configs
             (new_calls w
               (snd (run_state
                 (EthernetHelper_begin d mac fb gw sn (IPAddress 0 0 0 0) t) w))))
         = [if gw = IPAddress 0 0 0 0
            then IPAddress (octet0 fb) (octet1 fb) (octet2 fb) 1 else gw]
         \<and> map cfg_gateway
           (static_configs
             (new_calls w
               (snd (run_state
                 (EthernetHelper_begin d mac fb gw sn (IPAddress 0 0 0 0) t) w))))
         = [if gw = IPAddress 0 0 0 0
            then IPAddress (octet0 fb) (octet1 fb) (octet2 fb) 1 else gw]"
  by (simp add: begin_static_configs [OF assms])

text \<open>With the gateway 172.16.5.254 given, and with the gateway derived from 10.0.0.50.\<close>

theorem dns_defaults_to_gateway_witness:
  "dhcp_answer cable_down_driver initial_world mac0 60000 = 0
   \<and> hardware_answer cable_down_driver initial_world mac0 60000 \<noteq> EthernetNoHardware
   \<and> map cfg_dns
        (static_configs
          (new_calls initial_world
            (snd (run_state
              (EthernetHelper_begin cable_down_driver mac0 (IPAddress 172 16 5 9)
                 (IPAddress 172 16 5 254) default_subnet (IPAddress 0 0 0 0) 60000)
              initial_world)))) = [IPAddress 172 16 5 254]
   \<and> map cfg_gateway
        (static_configs
          (new_calls initial_world
            (snd (run_state
              (EthernetHelper_begin cable_down_driver mac0 (IPAddress 172 16 5 9)
                 (IPAddress 172 16 5 254) default_subnet (IPAddress 0 0 0 0) 60000)
              initial_world)))) = [IPAddress 172 16 5 254]
   \<and> map cfg_dns
        (static_configs
          (new_calls initial_world
            (snd (run_state
              (EthernetHelper_begin cable_down_driver mac0 (IPAddress 10 0 0 50)
                 (IPAddress 0 0 0 0) default_subnet (IPAddress 0 0 0 0) 60000)
              initial_world)))) = [IPAddress 10 0 0 1]"
  using
    dns_defaults_to_gateway [of cable_down_driver initial_world mac0 60000
      "IPAddress 172 16 5 9" "IPAddress 172 16 5 254" default_subnet]
    dns_defaults_to_gateway [of cable_down_driver initial_world mac0 60000
      "IPAddress 10 0 0 50" "IPAddress 0 0 0 0" default_subnet]
  by (simp add: cable_down_driver_answers)

text \<open>
  Claim C9. When \<open>begin\<close> returns false, \<open>usingDHCP\<close>, \<open>lastLinkStatus\<close> and
  \<open>lastLinkCheck\<close> have the values they had before the call.
\<close>

theorem begin_failure_keeps_members:
  assumes "fst (run_state (EthernetHelper_begin d mac fb gw sn dns t) w) = False"
  shows "usingDHCP (snd (run_state (EthernetHelper_begin d mac fb gw sn dns t) w)) = usingDHCP w
         \<and> lastLinkStatus (snd (run_state (EthernetHelper_begin d mac fb gw sn dns t) w))
             = lastLinkStatus w
         \<and> lastLinkCheck (snd (run_state (EthernetHelper_begin d mac fb gw sn dns t) w))
             = lastLinkCheck w"
proof -
  from assms have "dhcp_answer d w mac t = 0" and "hardware_answer d w mac t = EthernetNoHardware"
    by (simp_all add: begin_returns)
  then show ?thesis
    by (simp add: begin_fatal_world)
qed

text \<open>The shield disappears from a helper that was running on a lease.\<close>

theorem begin_failure_keeps_members_witness:
  "fst (run_state (EthernetHelper_begin absent_driver mac0 (IPAddress 10 0 0 50)
          default_gateway default_subnet default_dns 60000) running_world) = False
   \<and> usingDHCP (snd (run_state (EthernetHelper_begin absent_driver mac0 (IPAddress 10 0 0 50)
          default_gateway default_subnet default_dns 60000) running_world)) = True
   \<and> lastLinkStatus (snd (run_state (EthernetHelper_begin absent_driver mac0
          (IPAddress 10 0 0 50) default_gateway default_subnet default_dns 60000)
          running_world)) = LinkON
   \<and> lastLinkCheck (snd (run_state (EthernetHelper_begin absent_driver mac0
          (IPAddress 10 0 0 50) default_gateway default_subnet default_dns 60000)
          running_world)) = 1234"
proof -
  have failed:
    "fst (run_state (EthernetHelper_begin absent_driver mac0 (IPAddress 10 0 0 50)
            default_gateway default_subnet default_dns 60000) running_world) = False"
    by (simp add: begin_returns absent_driver_answers)
  show ?thesis
    using failed begin_failure_keeps_members [OF failed]
    by (simp add: running_world_def)
qed

section \<open>maintain: lease maintenance and the link check\<close>

text \<open>
  Claim C2. After a \<open>begin\<close> that returned true, the mode is dynamic exactly when the
  DHCP attempt succeeded. Over any sequence of \<open>maintain\<close> calls that follows, the
  number of \<open>Ethernet.maintain()\<close> calls is 0 in static mode and the number of
  \<open>maintain\<close> calls in dynamic mode; and each further call adds none in static mode
  and exactly one in dynamic mode.
\<close>

theorem lease_maintenance_gated_by_mode:
  assumes "fst (run_state (EthernetHelper_begin d mac fb gw sn dns t) w0) = True"
  shows "usingDHCP (snd (run_state (EthernetHelper_begin d mac fb gw sn dns t) w0))
           = (dhcp_answer d w0 mac t \<noteq> 0)
       \<and> count_list
           (new_calls (snd (run_state (EthernetHelper_begin d mac fb gw sn dns t) w0))
              (maintain_calls d is
                 (snd (run_state (EthernetHelper_begin d mac fb gw sn dns t) w0))))
           Eth_maintain
           = (if dhcp_answer d w0 mac t \<noteq> 0 then length is else 0)
       \<and> count_list
           (new_calls
              (maintain_calls d is
                 (snd (run_state (EthernetHelper_begin d mac fb gw sn dns t) w0)))
              (snd (run_state (EthernetHelper_maintain d i)
                 (maintain_calls d is
                    (snd (run_state (EthernetHelper_begin d mac fb gw sn dns t) w0))))))
           Eth_maintain
           = (if dhcp_answer d w0 mac t \<noteq> 0 then 1 else 0)"
proof -
  have mode: "usingDHCP (snd (run_state (EthernetHelper_begin d mac fb gw sn dns t) w0))
                = (dhcp_answer d w0 mac t \<noteq> 0)"
  proof (cases "dhcp_answer d w0 mac t = 0")
    case True
    with assms have "hardware_answer d w0 mac t \<noteq> EthernetNoHardware"
      by (simp add: begin_returns)
    with True show ?thesis
      by (simp add: begin_static_usingDHCP)
  next
    case False
    then show ?thesis
      by (simp add: begin_dhcp_usingDHCP)
  qed
  then show ?thesis
    by (simp add: maintain_calls_new_count maintain_count_lease maintain_calls_usingDHCP)
qed

text \<open>Three calls and a fourth, after a static fallback and after a lease.\<close>

theorem lease_maintenance_gated_by_mode_witness:
  "fst (run_state (EthernetHelper_begin cable_down_driver mac0 (IPAddress 10 0 0 50)
          default_gateway default_subnet default_dns 60000) initial_world) = True
   \<and> usingDHCP (snd (run_state (EthernetHelper_begin cable_down_driver mac0
          (IPAddress 10 0 0 50) default_gateway default_subnet default_dns 60000)
          initial_world)) = False
   \<and> count_list
        (new_calls
           (snd (run_state (EthernetHelper_begin cable_down_driver mac0 (IPAddress 10 0 0 50)
              default_gateway default_subnet default_dns 60000) initial_world))
           (maintain_calls cable_down_driver [10000, 10000, 10000]
              (snd (run_state (EthernetHelper_begin cable_down_driver mac0
                 (IPAddress 10 0 0 50) default_gateway default_subnet default_dns 60000)
                 initial_world))))
        Eth_maintain = 0
   \<and> fst (run_state (EthernetHelper_begin dhcp_driver mac0 (IPAddress 10 0 0 50)
          default_gateway default_subnet default_dns 60000) initial_world) = True
   \<and> usingDHCP (snd (run_state (EthernetHelper_begin dhcp_driver mac0
          (IPAddress 10 0 0 50) default_gateway default_subnet default_dns 60000)
          initial_world)) = True
   \<and> count_list
        (new_calls
           (snd (run_state (EthernetHelper_begin dhcp_driver mac0 (IPAddress 10 0 0 50)
              default_gateway default_subnet default_dns 60000) initial_world))
           (maintain_calls dhcp_driver [10000, 10000, 10000]
              (snd (run_state (EthernetHelper_begin dhcp_driver mac0
                 (IPAddress 10 0 0 50) default_gateway default_subnet default_dns 60000)
                 initial_world))))
        Eth_maintain = 3
   \<and> count_list
        (new_calls
           (maintain_calls dhcp_driver [10000, 10000, 10000]
              (snd (run_state (EthernetHelper_begin dhcp_driver mac0
                 (IPAddress 10 0 0 50) default_gateway default_subnet default_dns 60000)
                 initial_world)))
           (snd (run_state (EthernetHelper_maintain dhcp_driver 10000)
              (maintain_calls dhcp_driver [10000, 10000, 10000]
                 (snd (run_state (EthernetHelper_begin dhcp_driver mac0
                    (IPAddress 10 0 0 50) default_gateway default_subnet default_dns 60000)
                    initial_world))))))
        Eth_maintain = 1"
proof -
  have static:
    "fst (run_state (EthernetHelper_begin cable_down_driver mac0 (IPAddress 10 0 0 50)
            default_gateway default_subnet default_dns 60000) initial_world) = True"
    by (simp add: begin_returns cable_down_driver_answers)
  have dynamic:
    "fst (run_state (EthernetHelper_begin dhcp_driver mac0 (IPAddress 10 0 0 50)
            default_gateway default_subnet default_dns 60000) initial_world) = True"
    by (simp add: begin_returns dhcp_driver_answers)
  show ?thesis
    using static dynamic
      lease_maintenance_gated_by_mode [OF static, of "[10000, 10000, 10000]" 10000]
      lease_maintenance_gated_by_mode [OF dynamic, of "[10000, 10000, 10000]" 10000]
    by (simp add: cable_down_driver_answers dhcp_driver_answers)
qed

text \<open>
  Claim C5. In a call of \<open>maintain\<close>, let the elapsed time be the clock reading of the
  link-check block minus \<open>lastLinkCheck\<close>, in 32-bit unsigned arithmetic. If it is
  below the interval, the call makes no link-state query and leaves \<open>lastLinkCheck\<close>
  as it was. Otherwise the call makes exactly one link-state query and sets
  \<open>lastLinkCheck\<close> to the clock reading taken when the check ends (not to the old
  value plus the interval).
\<close>

theorem link_check_interval_gate:
  "(clock_at_check d w - lastLinkCheck w < i \<longrightarrow>
      count_list (new_calls w (snd (run_state (EthernetHelper_maintain d i) w))) Eth_linkStatus = 0
      \<and> lastLinkCheck (snd (run_state (EthernetHelper_maintain d i) w)) = lastLinkCheck w)
   \<and> (i \<le> clock_at_check d w - lastLinkCheck w \<longrightarrow>
      count_list (new_calls w (snd (run_state (EthernetHelper_maintain d i) w))) Eth_linkStatus = 1
      \<and> lastLinkCheck (snd (run_state (EthernetHelper_maintain d i) w)) = clock_after_check d w)"
  by (simp add: maintain_count_link maintain_lastLinkCheck not_le [symmetric])

text \<open>
  The clock reads 5000 and the last check was at 1234: with the default interval no
  check is due; with an interval of 1000 one is, and the new anchor is 5000, not 2234.
\<close>

theorem link_check_interval_gate_witness:
  "clock_at_check cable_down_driver running_world - lastLinkCheck running_world < 10000
   \<and> count_list
        (new_calls running_world
           (snd (run_state (EthernetHelper_maintain cable_down_driver 10000) running_world)))
        Eth_linkStatus = 0
   \<and> lastLinkCheck
        (snd (run_state (EthernetHelper_maintain cable_down_driver 10000) running_world)) = 1234
   \<and> 1000 \<le> clock_at_check cable_down_driver running_world - lastLinkCheck running_world
   \<and> count_list
        (new_calls running_world
           (snd (run_state (EthernetHelper_maintain cable_down_driver 1000) running_world)))
        Eth_linkStatus = 1
   \<and> lastLinkCheck
        (snd (run_state (EthernetHelper_maintain cable_down_driver 1000) running_world)) = 5000"
proof -
  have clock: "clock_at_check cable_down_driver running_world = 5000"
    by (simp add: cable_down_driver_def fixed_driver_answers)
  have after: "clock_after_check cable_down_driver running_world = 5000"
    by (simp add: cable_down_driver_def fixed_driver_answers)
  have last: "lastLinkCheck running_world = 1234"
    by (simp add: running_world_def)
  show ?thesis
    using link_check_interval_gate [of cable_down_driver running_world 10000]
      link_check_interval_gate [of cable_down_driver running_world 1000]
    by (simp add: clock after last)
qed

text \<open>
  Claim C6. When a link check fires and the state it observes differs from
  \<open>lastLinkStatus\<close>, the call writes exactly one ``Link status changed: '' entry and
  stores the observed state; when the observed state equals \<open>lastLinkStatus\<close>, it
  writes no such entry and \<open>lastLinkStatus\<close> stays as it was.
\<close>

theorem link_transition_logged_once:
  assumes "i \<le> clock_at_check d w - lastLinkCheck w"
  shows "(link_at_check d w \<noteq> lastLinkStatus w \<longrightarrow>
            count_list (new_serial w (snd (run_state (EthernetHelper_maintain d i) w)))
              (Print_text ''Link status changed: '') = 1
            \<and> lastLinkStatus (snd (run_state (EthernetHelper_maintain d i) w))
                = link_at_check d w)
       \<and> (link_at_check d w = lastLinkStatus w \<longrightarrow>
            count_list (new_serial w (snd (run_state (EthernetHelper_maintain d i) w)))
              (Print_text ''Link status changed: '') = 0
            \<and> lastLinkStatus (snd (run_state (EthernetHelper_maintain d i) w))
                = lastLinkStatus w)"
proof (cases "link_at_check d w = lastLinkStatus w")
  case True
  with assms show ?thesis
    by (simp add: new_serial_split maintain_fired_same lease_no_transition_entry)
next
  case False
  with assms show ?thesis
    by (simp add: new_serial_split maintain_fired_changed lease_no_transition_entry)
qed

text \<open>
  The stored state is \<open>LinkON\<close>: a check that finds the cable unplugged, and a check
  that finds it still connected.
\<close>

theorem link_transition_logged_once_witness:
  "1000 \<le> clock_at_check cable_down_driver running_world - lastLinkCheck running_world
   \<and> link_at_check cable_down_driver running_world \<noteq> lastLinkStatus running_world
   \<and> count_list
        (new_serial running_world
           (snd (run_state (EthernetHelper_maintain cable_down_driver 1000) running_world)))
        (Print_text ''Link status changed: '') = 1
   \<and> lastLinkStatus
        (snd (run_state (EthernetHelper_maintain cable_down_driver 1000) running_world))
       = LinkOFF
   \<and> 1000 \<le> clock_at_check dhcp_driver running_world - lastLinkCheck running_world
   \<and> link_at_check dhcp_driver running_world = lastLinkStatus running_world
   \<and> count_list
        (new_serial running_world
           (snd (run_state (EthernetHelper_maintain dhcp_driver 1000) running_world)))
        (Print_text ''Link status changed: '') = 0
   \<and> lastLinkStatus
        (snd (run_state (EthernetHelper_maintain dhcp_driver 1000) running_world))
       = LinkON"
proof -
  have due_down:
    "1000 \<le> clock_at_check cable_down_driver running_world - lastLinkCheck running_world"
    by (simp add: cable_down_driver_def fixed_driver_answers running_world_def)
  have due_up:
    "1000 \<le> clock_at_check dhcp_driver running_world - lastLinkCheck running_world"
    by (simp add: dhcp_driver_def fixed_driver_answers running_world_def)
  have seen:
    "link_at_check cable_down_driver running_world = LinkOFF"
    "link_at_check dhcp_driver running_world = LinkON"
    "lastLinkStatus running_world = LinkON"
    by (simp_all add: cable_down_driver_def dhcp_driver_def fixed_driver_answers
          running_world_def)
  show ?thesis
    using due_down due_up
      link_transition_logged_once [OF due_down]
      link_transition_logged_once [OF due_up]
    by (simp add: seen)
qed

text \<open>
  Claim C8. In dynamic mode the lease-maintenance block of \<open>maintain\<close> calls
  \<open>Ethernet.maintain()\<close> once and, whatever result code the driver returns, leaves
  \<open>usingDHCP\<close>, \<open>lastLinkStatus\<close> and \<open>lastLinkCheck\<close> as they were; the mode is
  still dynamic when \<open>maintain\<close> returns. (\<open>maintain\<close> returns no value, so there
  is nothing by which a failed renewal could reach the caller.)
\<close>

theorem lease_maintenance_keeps_members:
  assumes "usingDHCP w"
  shows "count_list (new_calls w (after_lease d w)) Eth_maintain = 1
       \<and> usingDHCP (after_lease d w) = usingDHCP w
       \<and> lastLinkStatus (after_lease d w) = lastLinkStatus w
       \<and> lastLinkCheck (after_lease d w) = lastLinkCheck w
       \<and> usingDHCP (snd (run_state (EthernetHelper_maintain d i) w)) = True"
  using assms
  by (simp add: lease_calls new_calls_def lease_usingDHCP lease_lastLinkStatus
        lease_lastLinkCheck maintain_usingDHCP)

text \<open>A renewal that fails.\<close>

theorem lease_maintenance_keeps_members_witness:
  "usingDHCP running_world
   \<and> lease_answer renew_failed_driver running_world = 1
   \<and> count_list (new_calls running_world (after_lease renew_failed_driver running_world))
        Eth_maintain = 1
   \<and> usingDHCP (after_lease renew_failed_driver running_world) = True
   \<and> lastLinkStatus (after_lease renew_failed_driver running_world) = LinkON
   \<and> lastLinkCheck (after_lease renew_failed_driver running_world) = 1234
   \<and> usingDHCP
        (snd (run_state (EthernetHelper_maintain renew_failed_driver 10000) running_world))
       = True"
proof -
  have dynamic: "usingDHCP running_world"
    by (simp add: running_world_def)
  have code: "lease_answer renew_failed_driver running_world = 1"
    by (simp add: renew_failed_driver_def fixed_driver_answers)
  show ?thesis
    using dynamic code
      lease_maintenance_keeps_members [OF dynamic, of renew_failed_driver 10000]
    by (simp add: running_world_def)
qed

section \<open>Before begin\<close>

text \<open>
  Claim C10. The members start as \<open>usingDHCP = false\<close>, \<open>lastLinkStatus = Unknown\<close>
  and \<open>lastLinkCheck = 0\<close>. From that world no sequence of \<open>maintain\<close> calls ever
  calls \<open>Ethernet.maintain()\<close>. As long as the members have these values, a call of
  \<open>maintain\<close> makes its link-state query exactly when the clock reading has reached
  the interval, and a call whose check is not yet due leaves the three members at
  these values.
\<close>

theorem initial_members_and_first_check:
  "usingDHCP initial_world = False
   \<and> lastLinkStatus initial_world = Unknown
   \<and> lastLinkCheck initial_world = 0
   \<and> count_list (new_calls initial_world (maintain_calls d is initial_world)) Eth_maintain = 0
   \<and> (usingDHCP w = False \<and> lastLinkStatus w = Unknown \<and> lastLinkCheck w = 0 \<longrightarrow>
        count_list (new_calls w (snd (run_state (EthernetHelper_maintain d i) w)))
          Eth_linkStatus
          = (if i \<le> millis_result d (calls w @ [Call_millis]) then 1 else 0)
        \<and> (millis_result d (calls w @ [Call_millis]) < i \<longrightarrow>
             usingDHCP (snd (run_state (EthernetHelper_maintain d i) w)) = False
             \<and> lastLinkStatus (snd (run_state (EthernetHelper_maintain d i) w)) = Unknown
             \<and> lastLinkCheck (snd (run_state (EthernetHelper_maintain d i) w)) = 0))"
proof -
  have members: "usingDHCP initial_world = False" "lastLinkStatus initial_world = Unknown"
      "lastLinkCheck initial_world = 0"
    by (simp_all add: initial_world_def)
  have lease: "count_list (new_calls initial_world (maintain_calls d is initial_world))
                 Eth_maintain = 0"
    by (simp add: maintain_calls_new_count members)
  from members lease show ?thesis
    by (simp add: maintain_first_check_count maintain_first_check_idle)
qed

text \<open>
  With the default interval, a first call at clock reading 5000 makes no query and a
  first call at clock reading 12000 makes one.
\<close>

theorem initial_members_and_first_check_witness:
  "usingDHCP initial_world = False
   \<and> lastLinkStatus initial_world = Unknown
   \<and> lastLinkCheck initial_world = 0
   \<and> count_list
        (new_calls initial_world
           (maintain_calls dhcp_driver [10000, 10000, 10000] initial_world))
        Eth_maintain = 0
   \<and> millis_result dhcp_driver (calls initial_world @ [Call_millis]) < 10000
   \<and> count_list
        (new_calls initial_world
           (snd (run_state (EthernetHelper_maintain dhcp_driver 10000) initial_world)))
        Eth_linkStatus = 0
   \<and> lastLinkCheck
        (snd (run_state (EthernetHelper_maintain dhcp_driver 10000) initial_world)) = 0
   \<and> count_list
        (new_calls initial_world
           (snd (run_state
              (EthernetHelper_maintain
                 (fixed_driver 1 EthernetW5100 LinkON 0 12000 (IPAddress 10 0 0 77)) 10000)
              initial_world)))
        Eth_linkStatus = 1"
proof -
  have early: "millis_result dhcp_driver (calls initial_world @ [Call_millis]) = 5000"
    by (simp add: dhcp_driver_def fixed_driver_def)
  have late:
    "millis_result (fixed_driver 1 EthernetW5100 LinkON 0 12000 (IPAddress 10 0 0 77))
       (calls initial_world @ [Call_millis]) = 12000"
    by (simp add: fixed_driver_def)
  have members: "usingDHCP initial_world = False" "lastLinkStatus initial_world = Unknown"
      "lastLinkCheck initial_world = 0"
    by (simp_all add: initial_world_def)
  show ?thesis
    using
      initial_members_and_first_check
        [of dhcp_driver "[10000, 10000, 10000]" initial_world 10000]
      initial_members_and_first_check
        [of "fixed_driver 1 EthernetW5100 LinkON 0 12000 (IPAddress 10 0 0 77)"
            "[10000, 10000, 10000]" initial_world 10000]
    by (simp add: early late members)
qed

section \<open>isLinkUp\<close>

text \<open>
  Claim C7. \<open>isLinkUp\<close> makes one live link-state query and returns true exactly when
  the driver answers \<open>LinkON\<close> (so \<open>LinkOFF\<close> and \<open>Unknown\<close> both give false). The
  answer is a function of the driver and the call history alone: the cached
  \<open>lastLinkStatus\<close>, \<open>usingDHCP\<close> and \<open>lastLinkCheck\<close> are not read, and they are
  left as they were (only the query is added to the calls made).
\<close>

theorem isLinkUp_live_query:
  "run_state (EthernetHelper_isLinkUp d) w =
     (linkStatus_result d (calls w @ [Eth_linkStatus]) = LinkON,
      w\<lparr>calls := calls w @ [Eth_linkStatus]\<rparr>)"
  by (simp add: EthernetHelper_isLinkUp_def run_prims)

end
